theory Spec2Isabelle
  imports
    Main
    "HOL-Library.Char_ord"
    "HOL-Library.List_Lexorder"
    "HOL-Library.Multiset"
begin

section \<open>The \<open>projects\<close> command of the OpenShift client\<close>

text \<open>
  A shallow embedding of \<^verbatim>\<open>pkg/oc/cli/projects/projects.go\<close>. Go strings are byte
  strings and are compared bytewise, which is the lexicographic order of
  \<^typ>\<open>char list\<close> over the order of character codes.
\<close>

subsection \<open>Data\<close>

text \<open>\<^verbatim>\<open>projectapi.Project\<close>: the two fields of the object metadata that the command reads.\<close>

record Project =
  Name :: string
  Annotations :: "string \<rightharpoonup> string"

text \<open>\<^verbatim>\<open>clientcmdapi.Context\<close> and \<^verbatim>\<open>clientcmdapi.Config\<close>, the fields read.\<close>

record Context =
  Namespace :: string
  Cluster :: string
  AuthInfo :: string

record KubeConfig =
  Contexts :: "string \<rightharpoonup> Context"
  CurrentContext :: string

text \<open>\<^verbatim>\<open>restclient.Config\<close>: only \<^verbatim>\<open>Host\<close> is read.\<close>

record RestConfig =
  Host :: string

text \<open>
  Go's \<^verbatim>\<open>error\<close> values. An API status error carries a reason, which is what
  \<^verbatim>\<open>kapierrors.IsForbidden\<close> inspects; every other error is a message. The nil error
  is \<open>None\<close> of the option type.
\<close>

datatype StatusReason = StatusReasonForbidden | StatusReasonNotFound | StatusReasonUnknown

datatype error =
    StatusError StatusReason string
  | ErrorString string
  | UsageError string

fun ErrorMessage :: "error \<Rightarrow> string" where
  "ErrorMessage (StatusError r m) = m"
| "ErrorMessage (ErrorString m) = m"
| "ErrorMessage (UsageError m) = m"

fun ReasonForError :: "error option \<Rightarrow> StatusReason" where
  "ReasonForError (Some (StatusError r m)) = r"
| "ReasonForError _ = StatusReasonUnknown"

definition IsForbidden :: "error option \<Rightarrow> bool" where
  "IsForbidden err = (ReasonForError err = StatusReasonForbidden)"

text \<open>
  \<^verbatim>\<open>ProjectsOptions\<close>. The two clients are opaque handles (\<^typ>\<open>'c\<close> for the project
  client, \<^typ>\<open>'k\<close> for the Kubernetes client): the command only passes them on.
\<close>

record ('c, 'k) ProjectsOptions =
  Config :: KubeConfig
  ClientConfig :: RestConfig
  Client :: 'c
  KubeClient :: 'k
  CommandName :: string
  DisplayShort :: bool

text \<open>
  The functions and the constant of other packages that the file calls. Their code is
  not part of this file, so they are parameters of the model:
  \<^verbatim>\<open>oapi.OpenShiftDisplayName\<close>, \<^verbatim>\<open>clientcfg.GetContextNickname\<close>,
  \<^verbatim>\<open>ocproject.ConfirmProjectAccess\<close>, \<^verbatim>\<open>ocproject.GetProjects\<close> (these two are the
  network round trips) and \<^verbatim>\<open>projectclientinternal.NewForConfig\<close>, taken together with
  the \<^verbatim>\<open>Project()\<close> selection that follows it. \<open>Quote\<close> is \<^verbatim>\<open>strconv.Quote\<close> of Go's
  standard library, which the verb \<^verbatim>\<open>%q\<close> applies; the model asks it only for strings
  with a byte from 0x7F on, where its result depends on the validity of the UTF-8, on
  the library's tables of printable characters and on the library's version.
\<close>

record ('c, 'k) Packages =
  OpenShiftDisplayName :: string
  GetContextNickname :: "string \<Rightarrow> string \<Rightarrow> string \<Rightarrow> string"
  ConfirmProjectAccess :: "string \<Rightarrow> 'c \<Rightarrow> 'k \<Rightarrow> error option"
  GetProjects :: "'c \<Rightarrow> 'k \<Rightarrow> error + Project list"
  NewForConfig :: "RestConfig \<Rightarrow> error + 'c"
  Quote :: "string \<Rightarrow> string"

text \<open>
  What an invocation does besides returning: the texts written, in order, each with the
  stream it goes to (\<^verbatim>\<open>fmt.Println\<close> and \<^verbatim>\<open>fmt.Printf\<close> write to the process's standard
  output, \<^verbatim>\<open>fmt.Fprintf(o.Out, ...)\<close> to the stream of the options), and the network
  round trips made, in order.
\<close>

datatype Stream = Stdout | Out

datatype Request = ConfirmProjectAccessCall string | GetProjectsCall

record Outcome =
  written :: "(Stream \<times> string) list"
  requests :: "Request list"
  returned :: "error option"

definition outputText :: "Outcome \<Rightarrow> string" where
  "outputText r = concat (map snd (written r))"

subsection \<open>Formatting\<close>

definition newline :: string where
  "newline = [CHR 0x0A]"

definition dquote :: char where
  "dquote = CHR 0x22"

definition squote :: string where
  "squote = [CHR 0x27]"

text \<open>
  The verb \<^verbatim>\<open>%q\<close> of Go's \<^verbatim>\<open>fmt\<close> (\<^verbatim>\<open>strconv.Quote\<close>). On a string of bytes below 0x7F
  it gives the string in double quotes, with the double quote and the backslash escaped
  by a backslash, the control characters that have a letter escape written with it, the
  other control characters written as \<^verbatim>\<open>\x\<close> and two hexadecimal digits, and every
  other byte kept. A string with a byte from 0x7F on is handed to \<open>Quote\<close> of the
  packages.
\<close>

definition hexDigit :: "nat \<Rightarrow> char" where
  "hexDigit n = (''0123456789abcdef'' ! (n mod 16))"

definition quoteByte :: "char \<Rightarrow> string" where
  "quoteByte c =
     (if c = dquote then [CHR 0x5C, dquote]
      else if c = CHR 0x5C then [CHR 0x5C, CHR 0x5C]
      else if c = CHR 0x07 then [CHR 0x5C, CHR ''a'']
      else if c = CHR 0x08 then [CHR 0x5C, CHR ''b'']
      else if c = CHR 0x0C then [CHR 0x5C, CHR ''f'']
      else if c = CHR 0x0A then [CHR 0x5C, CHR ''n'']
      else if c = CHR 0x0D then [CHR 0x5C, CHR ''r'']
      else if c = CHR 0x09 then [CHR 0x5C, CHR ''t'']
      else if c = CHR 0x0B then [CHR 0x5C, CHR ''v'']
      else if of_char c < (32::nat)
        then [CHR 0x5C, CHR ''x'', hexDigit (of_char c div 16), hexDigit (of_char c)]
      else [c])"

definition isPlainASCII :: "string \<Rightarrow> bool" where
  "isPlainASCII s = list_all (\<lambda>c. of_char c < (127::nat)) s"

definition goQuote :: "('c, 'k) Packages \<Rightarrow> string \<Rightarrow> string" where
  "goQuote d s =
     (if isPlainASCII s then dquote # concat (map quoteByte s) @ [dquote] else Quote d s)"

text \<open>Indexing a Go map of strings: the empty string for a missing key.\<close>

definition mapIndex :: "(string \<rightharpoonup> string) \<Rightarrow> string \<Rightarrow> string" where
  "mapIndex m k = (case m k of None \<Rightarrow> [] | Some v \<Rightarrow> v)"

subsection \<open>Sorting by name\<close>

text \<open>\<^verbatim>\<open>SortByProjectName.Less\<close>, on the two elements rather than their indices.\<close>

definition Less :: "Project \<Rightarrow> Project \<Rightarrow> bool" where
  "Less p q = (Name p < Name q)"

text \<open>
  \<^verbatim>\<open>sort.Sort\<close> belongs to Go's standard library. It is modelled by insertion sort,
  the library's own method on short slices: each element in turn is swapped leftwards
  (\<^verbatim>\<open>Swap\<close>) while it is \<^verbatim>\<open>Less\<close> than its left neighbour. The part already sorted is
  held reversed, its last element first. The library's contract is only that the result
  is a permutation that \<^verbatim>\<open>Less\<close> orders, and on longer slices it runs other algorithms;
  where the names are unique, as those of the projects of a server are, that contract
  has one solution, see \<open>sorted_permutation_unique\<close>.
\<close>

fun sinkLeft :: "Project \<Rightarrow> Project list \<Rightarrow> Project list" where
  "sinkLeft x [] = [x]"
| "sinkLeft x (y # lefts) = (if Less x y then y # sinkLeft x lefts else x # y # lefts)"

fun insertionSort :: "Project list \<Rightarrow> Project list \<Rightarrow> Project list" where
  "insertionSort sortedRev [] = rev sortedRev"
| "insertionSort sortedRev (x # rest) = insertionSort (sinkLeft x sortedRev) rest"

definition sortSort :: "Project list \<Rightarrow> Project list" where
  "sortSort projects = insertionSort [] projects"

subsection \<open>The lines of the many-projects branch\<close>

text \<open>Lines 176 to 180: the display name of a project, from its annotations.\<close>

definition displayNameOf :: "('c, 'k) Packages \<Rightarrow> Project \<Rightarrow> string" where
  "displayNameOf d project =
     (let displayName = mapIndex (Annotations project) (OpenShiftDisplayName d)
      in if length displayName = 0
         then mapIndex (Annotations project) ''displayName''
         else displayName)"

text \<open>
  The variables that the loop of lines 174 to 196 updates: \<^verbatim>\<open>msg\<close>, \<^verbatim>\<open>asterisk\<close>
  (declared before the loop, so its value survives an iteration) and \<^verbatim>\<open>count\<close>.
\<close>

record LoopState =
  msg :: string
  asterisk :: string
  count :: nat

definition loopBody ::
  "('c, 'k) Packages \<Rightarrow> ('c, 'k) ProjectsOptions \<Rightarrow> string \<Rightarrow> bool \<Rightarrow>
   LoopState \<Rightarrow> Project \<Rightarrow> LoopState" where
  "loopBody d opts currentProject currentProjectExists st project =
     (let count' = count st + 1;
          displayName = displayNameOf d project;
          linebreak = newline;
          asterisk' =
            (if currentProjectExists \<and> \<not> DisplayShort opts
             then (if currentProject = Name project then ''  * '' else ''    '')
             else asterisk st)
      in if length displayName > 0 \<and> displayName \<noteq> Name project \<and> \<not> DisplayShort opts
         then \<lparr>msg = msg st @ newline @ asterisk' @ Name project @ '' - '' @ displayName,
               asterisk = asterisk', count = count'\<rparr>
         else (let linebreak' = (if DisplayShort opts \<and> count' = 1 then [] else linebreak)
               in \<lparr>msg = msg st @ linebreak' @ asterisk' @ Name project,
                   asterisk = asterisk', count = count'\<rparr>))"

fun rangeProjects ::
  "('c, 'k) Packages \<Rightarrow> ('c, 'k) ProjectsOptions \<Rightarrow> string \<Rightarrow> bool \<Rightarrow>
   LoopState \<Rightarrow> Project list \<Rightarrow> LoopState" where
  "rangeProjects d opts currentProject currentProjectExists st [] = st"
| "rangeProjects d opts currentProject currentProjectExists st (project # rest) =
     rangeProjects d opts currentProject currentProjectExists
       (loopBody d opts currentProject currentProjectExists st project) rest"

subsection \<open>The helper of the one-project branch\<close>

text \<open>
  Modelled from the spec: \<^verbatim>\<open>projectapihelpers.DisplayNameAndNameForProject\<close>, whose code
  is in another package. The spec gives the display name as the value of the well-known
  annotation key, of the legacy key \<^verbatim>\<open>displayName\<close> if that is absent, and empty if both
  are; and the display form as the name alone if there is no distinct display name,
  else the name followed by the display name in parentheses.
\<close>

definition specDisplayName :: "('c, 'k) Packages \<Rightarrow> Project \<Rightarrow> string" where
  "specDisplayName d project =
     (case Annotations project (OpenShiftDisplayName d) of
        Some v \<Rightarrow> v
      | None \<Rightarrow> (case Annotations project ''displayName'' of Some v \<Rightarrow> v | None \<Rightarrow> []))"

definition DisplayNameAndNameForProject :: "('c, 'k) Packages \<Rightarrow> Project \<Rightarrow> string" where
  "DisplayNameAndNameForProject d project =
     (let displayName = specDisplayName d project
      in if displayName = [] \<or> displayName = Name project
         then Name project
         else Name project @ '' ('' @ displayName @ '')'')"

subsection \<open>\<^verbatim>\<open>RunProjects\<close>\<close>

definition noProjectsMessage :: string where
  "noProjectsMessage =
     ''You are not a member of any projects. You can request a project to be created with the ''
     @ squote @ ''new-project'' @ squote @ '' command.''"

definition oneProjectMessage :: "('c, 'k) Packages \<Rightarrow> string \<Rightarrow> string" where
  "oneProjectMessage d display =
     ''You have one project on this server: '' @ goQuote d display @ ''.''"

definition projectsHeader :: "string \<Rightarrow> string" where
  "projectsHeader commandName =
     ''You have access to the following projects and can switch between them with ''
     @ squote @ commandName @ '' project <projectname>'' @ squote @ '':'' @ newline"

definition forbiddenMessage :: "('c, 'k) Packages \<Rightarrow> string \<Rightarrow> string" where
  "forbiddenMessage d currentProject =
     ''You do not have rights to view project '' @ goQuote d currentProject
     @ ''. Please switch to an existing one.'' @ newline"

definition shortFooter :: "('c, 'k) Packages \<Rightarrow> string \<Rightarrow> string \<Rightarrow> string" where
  "shortFooter d currentProject host =
     newline @ ''Using project '' @ goQuote d currentProject @ '' on server '' @ goQuote d host
     @ ''.'' @ newline"

definition longFooter ::
  "('c, 'k) Packages \<Rightarrow> string \<Rightarrow> string \<Rightarrow> string \<Rightarrow> string" where
  "longFooter d currentProject context host =
     newline @ ''Using project '' @ goQuote d currentProject @ '' from context named ''
     @ goQuote d context @ '' on server '' @ goQuote d host @ ''.'' @ newline"

text \<open>Lines 155 to 197: the \<^verbatim>\<open>switch\<close> on the number of projects, which builds \<^verbatim>\<open>msg\<close>.\<close>

definition buildMsg ::
  "('c, 'k) Packages \<Rightarrow> ('c, 'k) ProjectsOptions \<Rightarrow> string \<Rightarrow> bool \<Rightarrow> Project list \<Rightarrow> string"
  where
  "buildMsg d opts currentProject currentProjectExists projects =
     (if length projects = 0 then
        (if \<not> DisplayShort opts then noProjectsMessage else [])
      else if length projects = 1 then
        (if DisplayShort opts then Name (projects ! 0)
         else oneProjectMessage d (DisplayNameAndNameForProject d (projects ! 0)))
      else
        (let msg0 = (if \<not> DisplayShort opts then projectsHeader (CommandName opts) else [])
         in msg (rangeProjects d opts currentProject currentProjectExists
                  \<lparr>msg = msg0, asterisk = [], count = 0\<rparr> (sortSort projects))))"

text \<open>Lines 130 to 134: the current project is the namespace of the current context.\<close>

definition currentProjectOf :: "('c, 'k) ProjectsOptions \<Rightarrow> string" where
  "currentProjectOf opts =
     (case Contexts (Config opts) (CurrentContext (Config opts)) of
        None \<Rightarrow> []
      | Some currentContext \<Rightarrow> Namespace currentContext)"

text \<open>
  Lines 141 to 145: the access check, made only for a non-empty current project, and
  \<^verbatim>\<open>currentProjectExists\<close>, true when the check was made and returned nil.
\<close>

definition accessRequests :: "('c, 'k) ProjectsOptions \<Rightarrow> Request list" where
  "accessRequests opts =
     (if length (currentProjectOf opts) > 0
      then [ConfirmProjectAccessCall (currentProjectOf opts)] else [])"

definition currentProjectExistsOf :: "('c, 'k) Packages \<Rightarrow> ('c, 'k) ProjectsOptions \<Rightarrow> bool"
  where
  "currentProjectExistsOf d opts =
     (length (currentProjectOf opts) > 0 \<and>
      ConfirmProjectAccess d (currentProjectOf opts) (Client opts) (KubeClient opts) = None)"

text \<open>Lines 147 to 150.\<close>

definition defaultContextNameOf :: "('c, 'k) Packages \<Rightarrow> ('c, 'k) ProjectsOptions \<Rightarrow> string"
  where
  "defaultContextNameOf d opts =
     (case Contexts (Config opts) (CurrentContext (Config opts)) of
        None \<Rightarrow> []
      | Some currentContext \<Rightarrow>
          GetContextNickname d (Namespace currentContext) (Cluster currentContext)
            (AuthInfo currentContext))"

text \<open>Lines 210 to 214: the footer.\<close>

definition footer :: "('c, 'k) Packages \<Rightarrow> ('c, 'k) ProjectsOptions \<Rightarrow> string" where
  "footer d opts =
     (if CurrentContext (Config opts) = defaultContextNameOf d opts
      then shortFooter d (currentProjectOf opts) (Host (ClientConfig opts))
      else longFooter d (currentProjectOf opts) (CurrentContext (Config opts))
             (Host (ClientConfig opts)))"

text \<open>
  \<^verbatim>\<open>RunProjects\<close>. Line 142 declares, with \<^verbatim>\<open>:=\<close>, a new \<^verbatim>\<open>currentProjectErr\<close> whose
  scope is the \<^verbatim>\<open>if\<close> statement: the result of the access check lives there and
  only decides \<^verbatim>\<open>currentProjectExists\<close>. The \<^verbatim>\<open>currentProjectErr\<close> of line 137, which
  lines 202 and 205 read, is never assigned and keeps its initial nil.
\<close>

definition RunProjects :: "('c, 'k) Packages \<Rightarrow> ('c, 'k) ProjectsOptions \<Rightarrow> Outcome" where
  "RunProjects d opts =
     (let currentProject = currentProjectOf opts;
          currentProjectErr = None;
          currentProjectExists = currentProjectExistsOf d opts;
          calls = accessRequests opts @ [GetProjectsCall]
      in case GetProjects d (Client opts) (KubeClient opts) of
           Inl err \<Rightarrow> \<lparr>written = [], requests = calls, returned = Some err\<rparr>
         | Inr projects \<Rightarrow>
            (let listing =
                   [(Stdout,
                     buildMsg d opts currentProject currentProjectExists projects @ newline)]
             in if length projects > 0 \<and> \<not> DisplayShort opts then
                  (if \<not> currentProjectExists then
                     \<lparr>written =
                        listing @
                        (if IsForbidden currentProjectErr
                         then [(Stdout, forbiddenMessage d currentProject)] else []),
                      requests = calls, returned = currentProjectErr\<rparr>
                   else
                     \<lparr>written = listing @ [(Out, footer d opts)],
                      requests = calls, returned = None\<rparr>)
                else \<lparr>written = listing, requests = calls, returned = None\<rparr>))"

subsection \<open>The command\<close>

definition Validate :: "string list \<Rightarrow> error option" where
  "Validate args =
     (if length args > 0 then Some (ErrorString ''no arguments should be passed'') else None)"

text \<open>
  \<^verbatim>\<open>kcmdutil.Factory\<close>, by the results of the three methods that \<^verbatim>\<open>Complete\<close> calls:
  they load the configuration and build clients.
\<close>

record 'k Factory =
  RawConfig :: "error + KubeConfig"
  ToRESTConfig :: "error + RestConfig"
  ClientSet :: "error + 'k"

text \<open>
  \<^verbatim>\<open>Complete\<close> fills the options that \<^verbatim>\<open>NewProjectsOptions\<close> made, which hold the
  command's name and, once the flags are parsed, \<^verbatim>\<open>DisplayShort\<close>.
\<close>

definition Complete ::
  "('c, 'k) Packages \<Rightarrow> 'k Factory \<Rightarrow> string \<Rightarrow> bool \<Rightarrow> error + ('c, 'k) ProjectsOptions"
  where
  "Complete d f name short =
     (case RawConfig f of
        Inl err \<Rightarrow> Inl err
      | Inr config \<Rightarrow>
         (case ToRESTConfig f of
            Inl err \<Rightarrow> Inl err
          | Inr clientConfig \<Rightarrow>
             (case ClientSet f of
                Inl err \<Rightarrow> Inl err
              | Inr kubeClient \<Rightarrow>
                 (case NewForConfig d clientConfig of
                    Inl err \<Rightarrow> Inl err
                  | Inr projectClient \<Rightarrow>
                     Inr \<lparr>Config = config, ClientConfig = clientConfig,
                          Client = projectClient, KubeClient = kubeClient,
                          CommandName = name, DisplayShort = short\<rparr>))))"

text \<open>
  \<^verbatim>\<open>kcmdutil.CheckErr\<close> ends the process when its argument is not nil, so the steps after
  it are not run. \<open>fatal\<close> is the outcome of such an exit before anything was written
  or requested; its \<open>returned\<close> is the error handed to \<^verbatim>\<open>CheckErr\<close>.
  \<^verbatim>\<open>kcmdutil.UsageErrorf\<close> is the constructor \<open>UsageError\<close>.
\<close>

definition fatal :: "error \<Rightarrow> Outcome" where
  "fatal err = \<lparr>written = [], requests = [], returned = Some err\<rparr>"

text \<open>The \<^verbatim>\<open>Run\<close> function of the command that \<^verbatim>\<open>NewCmdProjects\<close> builds, lines 79 to 85.\<close>

definition Run ::
  "('c, 'k) Packages \<Rightarrow> 'k Factory \<Rightarrow> string \<Rightarrow> bool \<Rightarrow> string list \<Rightarrow> Outcome" where
  "Run d f fullName short args =
     (case Complete d f fullName short of
        Inl err \<Rightarrow> fatal (UsageError (ErrorMessage err))
      | Inr opts \<Rightarrow>
         (case Validate args of
            Some err \<Rightarrow> fatal err
          | None \<Rightarrow> RunProjects d opts))"

subsection \<open>The text of one line\<close>

text \<open>
  What one iteration of the loop appends to \<^verbatim>\<open>msg\<close>, as a function of the project and
  of the iteration's number: the marker is what lines 182 to 187 leave in \<^verbatim>\<open>asterisk\<close>,
  the line is what line 189 or line 194 appends. \<open>loopBody_eq\<close> proves it of the loop.
\<close>

definition markerOf :: "('c, 'k) ProjectsOptions \<Rightarrow> string \<Rightarrow> bool \<Rightarrow> Project \<Rightarrow> string" where
  "markerOf opts currentProject currentProjectExists project =
     (if currentProjectExists \<and> \<not> DisplayShort opts
      then (if currentProject = Name project then ''  * '' else ''    '')
      else [])"

definition projectLine ::
  "('c, 'k) Packages \<Rightarrow> ('c, 'k) ProjectsOptions \<Rightarrow> string \<Rightarrow> bool \<Rightarrow> nat \<Rightarrow> Project \<Rightarrow> string"
  where
  "projectLine d opts currentProject currentProjectExists n project =
     (let displayName = displayNameOf d project
      in if length displayName > 0 \<and> displayName \<noteq> Name project \<and> \<not> DisplayShort opts
         then newline @ markerOf opts currentProject currentProjectExists project
              @ Name project @ '' - '' @ displayName
         else (if DisplayShort opts \<and> n = 1 then [] else newline)
              @ markerOf opts currentProject currentProjectExists project @ Name project)"

subsection \<open>Example inputs\<close>

definition displayNameKey :: string where
  "displayNameKey = ''openshift.io/display-name''"

definition projectA :: Project where
  "projectA = \<lparr>Name = ''a'', Annotations = [displayNameKey \<mapsto> ''Alpha'']\<rparr>"

definition projectB :: Project where
  "projectB = \<lparr>Name = ''b'',
               Annotations = [displayNameKey \<mapsto> [], ''displayName'' \<mapsto> ''Legacy'']\<rparr>"

definition projectC :: Project where
  "projectC = \<lparr>Name = ''c'', Annotations = Map.empty\<rparr>"

definition projectDev :: Project where
  "projectDev = \<lparr>Name = ''dev'', Annotations = Map.empty\<rparr>"

text \<open>
  A server on which only project \<open>b\<close> may be viewed, and whose listing is given; the
  nickname is that of \<^verbatim>\<open>GetContextNickname\<close> for a user name without a slash. The
  examples quote strings of bytes below 0x7F only, so the \<open>Quote\<close> given here is never
  asked.
\<close>

definition examplePackages :: "error + Project list \<Rightarrow> (unit, unit) Packages" where
  "examplePackages listing =
     \<lparr>OpenShiftDisplayName = displayNameKey,
      GetContextNickname = (\<lambda>ns cluster user. ns @ ''/'' @ cluster @ ''/'' @ user),
      ConfirmProjectAccess =
        (\<lambda>name c k. if name = ''b'' then None
                    else Some (StatusError StatusReasonForbidden ''forbidden'')),
      GetProjects = (\<lambda>c k. listing),
      NewForConfig = (\<lambda>config. Inr ()),
      Quote = (\<lambda>s. dquote # s @ [dquote])\<rparr>"

definition exampleOptions :: "string \<Rightarrow> string \<Rightarrow> bool \<Rightarrow> (unit, unit) ProjectsOptions" where
  "exampleOptions context ns short =
     \<lparr>Config =
        \<lparr>Contexts = [context \<mapsto> \<lparr>Namespace = ns, Cluster = ''c1'', AuthInfo = ''u1''\<rparr>],
         CurrentContext = context\<rparr>,
      ClientConfig = \<lparr>Host = ''https://c1:8443''\<rparr>,
      Client = (), KubeClient = (), CommandName = ''oc'', DisplayShort = short\<rparr>"

definition noContextOptions :: "bool \<Rightarrow> (unit, unit) ProjectsOptions" where
  "noContextOptions short =
     \<lparr>Config = \<lparr>Contexts = Map.empty, CurrentContext = []\<rparr>,
      ClientConfig = \<lparr>Host = ''https://c1:8443''\<rparr>,
      Client = (), KubeClient = (), CommandName = ''oc'', DisplayShort = short\<rparr>"

definition exampleFactory :: "unit Factory" where
  "exampleFactory =
     \<lparr>RawConfig = Inr (Config (exampleOptions ''work'' ''b'' False)),
      ToRESTConfig = Inr \<lparr>Host = ''https://c1:8443''\<rparr>,
      ClientSet = Inr ()\<rparr>"

text \<open>A factory that cannot build the Kubernetes client.\<close>

definition failingFactory :: "unit Factory" where
  "failingFactory =
     \<lparr>RawConfig = Inr (Config (exampleOptions ''work'' ''b'' False)),
      ToRESTConfig = Inr \<lparr>Host = ''https://c1:8443''\<rparr>,
      ClientSet = Inl (ErrorString ''no client'')\<rparr>"

section \<open>Properties\<close>

subsection \<open>The sort returns the one ordered permutation\<close>

lemma mset_sinkLeft: "mset (sinkLeft x ys) = add_mset x (mset ys)"
  by (induction ys) auto

lemma set_sinkLeft: "set (sinkLeft x ys) = insert x (set ys)"
  by (induction ys) auto

lemma descending_sinkLeft:
  "sorted_wrt (\<lambda>a b. Name b \<le> Name a) ys \<Longrightarrow> sorted_wrt (\<lambda>a b. Name b \<le> Name a) (sinkLeft x ys)"
  by (induction ys) (auto simp: set_sinkLeft Less_def)

lemma mset_insertionSort: "mset (insertionSort acc xs) = mset acc + mset xs"
  by (induction xs arbitrary: acc) (auto simp: mset_sinkLeft)

lemma ascending_insertionSort:
  "sorted_wrt (\<lambda>a b. Name b \<le> Name a) acc \<Longrightarrow>
   sorted_wrt (\<lambda>a b. Name a \<le> Name b) (insertionSort acc xs)"
  by (induction xs arbitrary: acc) (auto simp: descending_sinkLeft sorted_wrt_rev)

lemma mset_sortSort: "mset (sortSort ps) = mset ps"
  by (simp add: sortSort_def mset_insertionSort)

lemma sorted_sortSort: "sorted (map Name (sortSort ps))"
  using ascending_insertionSort [of "[]" ps] by (simp add: sortSort_def sorted_map)

lemma distinct_sortSort: "distinct (map Name (sortSort ps)) = distinct (map Name ps)"
proof -
  have "mset (map Name (sortSort ps)) = mset (map Name ps)"
    by (simp add: mset_sortSort)
  then show ?thesis by (rule mset_eq_imp_distinct_iff)
qed

lemma sorted_permutation_unique:
  assumes "mset qs = mset ps" and "distinct (map Name ps)" and "sorted (map Name qs)"
  shows "qs = sortSort ps"
proof (rule map_sorted_distinct_set_unique [where f = Name])
  have s: "set qs = set ps" using assms(1) by (rule mset_eq_setD)
  show "set qs = set (sortSort ps)" using s mset_eq_setD [OF mset_sortSort [of ps]] by simp
  have "inj_on Name (set ps)" using assms(2) by (simp add: distinct_map)
  then show "inj_on Name (set qs \<union> set (sortSort ps))"
    using s mset_eq_setD [OF mset_sortSort [of ps]] by simp
  show "sorted (map Name qs)" by fact
  have "mset (map Name qs) = mset (map Name ps)" using assms(1) by simp
  then show "distinct (map Name qs)" using assms(2) mset_eq_imp_distinct_iff by blast
  show "sorted (map Name (sortSort ps))" by (rule sorted_sortSort)
  show "distinct (map Name (sortSort ps))" using assms(2) by (simp add: distinct_sortSort)
qed

lemma sortSort_permutation:
  assumes "mset qs = mset ps" and "distinct (map Name ps)"
  shows "sortSort qs = sortSort ps"
proof (rule sorted_permutation_unique)
  show "mset (sortSort qs) = mset ps" using assms(1) by (simp add: mset_sortSort)
  show "distinct (map Name ps)" by fact
  show "sorted (map Name (sortSort qs))" by (rule sorted_sortSort)
qed

lemma strictly_sorted_sortSort:
  "distinct (map Name ps) \<Longrightarrow> sorted_wrt (<) (map Name (sortSort ps))"
  by (simp add: strict_sorted_iff sorted_sortSort distinct_sortSort)

subsection \<open>The loop appends one line for each project\<close>

lemma loopBody_eq:
  assumes "asterisk st = [] \<or> (ex \<and> \<not> DisplayShort opts)"
  shows "loopBody d opts cp ex st p =
           \<lparr>msg = msg st @ projectLine d opts cp ex (count st + 1) p,
            asterisk = markerOf opts cp ex p, count = count st + 1\<rparr>"
  using assms by (auto simp: loopBody_def projectLine_def markerOf_def Let_def)

lemma markerOf_invariant:
  "markerOf opts cp ex p = [] \<or> (ex \<and> \<not> DisplayShort opts)"
  by (simp add: markerOf_def)

lemma rangeProjects_msg:
  assumes "asterisk st = [] \<or> (ex \<and> \<not> DisplayShort opts)"
  shows "msg (rangeProjects d opts cp ex st ps) =
           msg st @ concat (map (\<lambda>(n, p). projectLine d opts cp ex n p)
                              (enumerate (count st + 1) ps))"
  using assms
proof (induction ps arbitrary: st)
  case Nil
  then show ?case by simp
next
  case (Cons p ps)
  let ?st = "loopBody d opts cp ex st p"
  have eq: "?st = \<lparr>msg = msg st @ projectLine d opts cp ex (count st + 1) p,
            asterisk = markerOf opts cp ex p, count = count st + 1\<rparr>"
    using Cons.prems by (rule loopBody_eq)
  have inv: "asterisk ?st = [] \<or> (ex \<and> \<not> DisplayShort opts)"
    using markerOf_invariant [of opts cp ex p] by (simp add: eq)
  show ?case
    using Cons.IH [OF inv] by (simp add: eq)
qed

lemma verbose_lines:
  assumes "\<not> DisplayShort opts"
  shows "concat (map (\<lambda>(n, p). projectLine d opts cp ex n p) (enumerate k ps)) =
         concat (map (projectLine d opts cp ex 0) ps)"
proof -
  have "projectLine d opts cp ex n p = projectLine d opts cp ex 0 p" for n p
    using assms by (simp add: projectLine_def)
  then show ?thesis
    by (induction ps arbitrary: k) simp_all
qed

lemma buildMsg_many:
  assumes "2 \<le> length projects"
  shows "buildMsg d opts cp ex projects =
           (if DisplayShort opts then [] else projectsHeader (CommandName opts))
           @ concat (map (\<lambda>(n, p). projectLine d opts cp ex n p)
                       (enumerate 1 (sortSort projects)))"
proof -
  define msg0 where "msg0 = (if DisplayShort opts then [] else projectsHeader (CommandName opts))"
  have len: "length projects \<noteq> 0" "length projects \<noteq> 1"
    using assms by auto
  have "buildMsg d opts cp ex projects =
          msg (rangeProjects d opts cp ex \<lparr>msg = msg0, asterisk = [], count = 0\<rparr>
                 (sortSort projects))"
    using len by (simp add: buildMsg_def msg0_def Let_def)
  also have "\<dots> = msg0 @ concat (map (\<lambda>(n, p). projectLine d opts cp ex n p)
                                   (enumerate 1 (sortSort projects)))"
    using rangeProjects_msg [of "\<lparr>msg = msg0, asterisk = [], count = 0\<rparr>" ex opts d cp
                               "sortSort projects"]
    by simp
  finally show ?thesis by (simp only: msg0_def)
qed

lemma RunProjects_listing:
  assumes "GetProjects d (Client opts) (KubeClient opts) = Inr projects"
  shows "written (RunProjects d opts) =
           (Stdout, buildMsg d opts (currentProjectOf opts) (currentProjectExistsOf d opts) projects
                    @ newline)
           # (if 0 < length projects \<and> \<not> DisplayShort opts \<and> currentProjectExistsOf d opts
              then [(Out, footer d opts)] else [])"
    and "requests (RunProjects d opts) = accessRequests opts @ [GetProjectsCall]"
    and "returned (RunProjects d opts) = None"
  using assms by (simp_all add: RunProjects_def Let_def IsForbidden_def)

lemma RunProjects_failed:
  assumes "GetProjects d (Client opts) (KubeClient opts) = Inl err"
  shows "RunProjects d opts =
           \<lparr>written = [], requests = accessRequests opts @ [GetProjectsCall], returned = Some err\<rparr>"
  using assms by (simp add: RunProjects_def Let_def)

subsection \<open>What \<open>RunProjects\<close> requests and writes\<close>

lemma RunProjects_requests: "requests (RunProjects d opts) \<noteq> []"
  by (simp add: RunProjects_def Let_def split: sum.splits)

lemma footers_differ: "shortFooter d p h \<noteq> longFooter d p c h"
proof
  assume "shortFooter d p h = longFooter d p c h"
  then have "length (shortFooter d p h) = length (longFooter d p c h)" by simp
  then show False by (simp add: shortFooter_def longFooter_def)
qed

lemma goQuote_other_listing: "goQuote (d\<lparr>GetProjects := g\<rparr>) s = goQuote d s"
  by (simp add: goQuote_def)

lemma goQuote_ascii:
  "isPlainASCII s \<Longrightarrow> goQuote d s = dquote # concat (map quoteByte s) @ [dquote]"
  by (simp add: goQuote_def)

lemma projectLine_verbose:
  assumes "\<not> DisplayShort opts"
  shows "projectLine d opts cp ex n p =
           newline
           @ (if ex then (if cp = Name p then ''  * '' else ''    '') else [])
           @ Name p
           @ (if displayNameOf d p \<noteq> [] \<and> displayNameOf d p \<noteq> Name p
              then '' - '' @ displayNameOf d p else [])"
  using assms by (simp add: projectLine_def markerOf_def Let_def)

lemma RunProjects_other_listing:
  assumes "GetProjects d (Client opts) (KubeClient opts) = Inr projects"
    and "2 \<le> length projects"
    and "length permuted = length projects"
    and "sortSort permuted = sortSort projects"
  shows "RunProjects (d\<lparr>GetProjects := \<lambda>c k. Inr permuted\<rparr>) opts = RunProjects d opts"
proof -
  let ?d = "d\<lparr>GetProjects := \<lambda>c k. Inr permuted\<rparr>"
  have ex: "currentProjectExistsOf ?d opts = currentProjectExistsOf d opts"
    by (simp add: currentProjectExistsOf_def)
  have line: "projectLine ?d opts cp e n p = projectLine d opts cp e n p" for cp e n p
    by (simp add: projectLine_def displayNameOf_def)
  have "buildMsg ?d opts cp e permuted = buildMsg d opts cp e projects" for cp e
    using assms(2,3,4) by (simp add: buildMsg_many line)
  moreover have "defaultContextNameOf ?d opts = defaultContextNameOf d opts"
    by (cases "Contexts (Config opts) (CurrentContext (Config opts))")
       (simp_all add: defaultContextNameOf_def)
  then have "footer ?d opts = footer d opts"
    by (simp add: footer_def shortFooter_def longFooter_def goQuote_other_listing)
  ultimately show ?thesis
    using assms(1,3)
    by (simp add: RunProjects_def ex Let_def forbiddenMessage_def goQuote_other_listing)
qed

section \<open>The claims\<close>

subsection \<open>C1: a forbidden current project\<close>

text \<open>
  C1 says that when the current project is resolved and the access check fails as
  Forbidden, \<^verbatim>\<open>RunProjects\<close>, in verbose mode with a non-empty list, prints the
  advisory that names the project and returns a non-nil error. Lines 201 to 205 are
  written to do so, but they read the \<^verbatim>\<open>currentProjectErr\<close> of line 137, and the
  result of the check went to the variable of the same name that line 142 declares.
  On a server where viewing \<open>secret\<close> is forbidden, with \<open>secret\<close> the current project
  and two projects listed, the run writes the listing alone and returns nil.
\<close>

theorem C1_forbidden_not_reported:
  "currentProjectOf (exampleOptions ''work'' ''secret'' False) = ''secret''
   \<and> IsForbidden (ConfirmProjectAccess (examplePackages (Inr [projectC, projectA])) ''secret''
                    (Client (exampleOptions ''work'' ''secret'' False))
                    (KubeClient (exampleOptions ''work'' ''secret'' False)))
   \<and> GetProjects (examplePackages (Inr [projectC, projectA]))
        (Client (exampleOptions ''work'' ''secret'' False))
        (KubeClient (exampleOptions ''work'' ''secret'' False)) = Inr [projectC, projectA]
   \<and> \<not> DisplayShort (exampleOptions ''work'' ''secret'' False)
   \<and> RunProjects (examplePackages (Inr [projectC, projectA]))
        (exampleOptions ''work'' ''secret'' False)
       = \<lparr>written =
            [(Stdout, projectsHeader ''oc'' @ newline @ ''a - Alpha'' @ newline @ ''c'' @ newline)],
          requests = [ConfirmProjectAccessCall ''secret'', GetProjectsCall],
          returned = None\<rparr>"
  by (simp add: RunProjects_def buildMsg_def sortSort_def Less_def loopBody_def displayNameOf_def
        mapIndex_def IsForbidden_def currentProjectOf_def currentProjectExistsOf_def
        accessRequests_def examplePackages_def exampleOptions_def projectA_def projectC_def
        displayNameKey_def Let_def)

subsection \<open>C2: the marker before each name\<close>

text \<open>
  C2, as the code has it: for two or more projects in verbose mode the output is the
  header and then one line for each project in sorted order. When the current project
  was confirmed accessible each line starts with a marker of four characters, \<^verbatim>\<open>"  * "\<close>
  for the current project and four spaces for every other one; when no current project
  was confirmed accessible the lines carry no marker at all, the name follows the line
  break directly.
\<close>

theorem C2_markers:
  assumes "GetProjects d (Client opts) (KubeClient opts) = Inr projects"
    and "2 \<le> length projects"
    and "\<not> DisplayShort opts"
  shows "written (RunProjects d opts) =
           (Stdout,
            projectsHeader (CommandName opts)
            @ concat (map (\<lambda>p. newline
                               @ (if currentProjectExistsOf d opts
                                  then (if currentProjectOf opts = Name p
                                        then ''  * '' else ''    '')
                                  else [])
                               @ Name p
                               @ (if displayNameOf d p \<noteq> [] \<and> displayNameOf d p \<noteq> Name p
                                  then '' - '' @ displayNameOf d p else []))
                        (sortSort projects))
            @ newline)
           # (if currentProjectExistsOf d opts then [(Out, footer d opts)] else [])"
proof -
  have ne: "0 < length projects"
    using assms(2) by auto
  let ?cp = "currentProjectOf opts" and ?ex = "currentProjectExistsOf d opts"
  have "buildMsg d opts ?cp ?ex projects =
          projectsHeader (CommandName opts)
          @ concat (map (projectLine d opts ?cp ?ex 0) (sortSort projects))"
    using buildMsg_many [OF assms(2), of d opts ?cp ?ex] assms(3)
    by (simp add: verbose_lines)
  also have "map (projectLine d opts ?cp ?ex 0) (sortSort projects) =
             map (\<lambda>p. newline
                       @ (if ?ex then (if ?cp = Name p then ''  * '' else ''    '') else [])
                       @ Name p
                       @ (if displayNameOf d p \<noteq> [] \<and> displayNameOf d p \<noteq> Name p
                          then '' - '' @ displayNameOf d p else []))
                 (sortSort projects)"
    using projectLine_verbose [OF assms(3)] by simp
  finally show ?thesis
    using RunProjects_listing(1) [OF assms(1)] ne assms(3) by simp
qed

theorem C2_markers_witness:
  "GetProjects (examplePackages (Inr [projectC, projectA, projectB]))
     (Client (exampleOptions ''work'' ''b'' False)) (KubeClient (exampleOptions ''work'' ''b'' False))
     = Inr [projectC, projectA, projectB]
   \<and> 2 \<le> length [projectC, projectA, projectB]
   \<and> \<not> DisplayShort (exampleOptions ''work'' ''b'' False)
   \<and> hd (written (RunProjects (examplePackages (Inr [projectC, projectA, projectB]))
                    (exampleOptions ''work'' ''b'' False))) =
       (Stdout,
        projectsHeader ''oc''
        @ newline @ ''    a - Alpha''
        @ newline @ ''  * b - Legacy''
        @ newline @ ''    c''
        @ newline)"
  using arg_cong [OF C2_markers [of "examplePackages (Inr [projectC, projectA, projectB])"
          "exampleOptions ''work'' ''b'' False" "[projectC, projectA, projectB]"], of hd]
  by (simp add: examplePackages_def exampleOptions_def projectA_def projectB_def projectC_def
        displayNameKey_def sortSort_def Less_def displayNameOf_def mapIndex_def
        currentProjectOf_def currentProjectExistsOf_def Let_def)

text \<open>
  C2 as stated asks for four spaces before every project that is not the accessible
  current selection, also when no selection was confirmed accessible. With no current
  context the three lines start with the names.
\<close>

theorem C2_no_marker_counterexample:
  "GetProjects (examplePackages (Inr [projectC, projectA, projectB]))
     (Client (noContextOptions False)) (KubeClient (noContextOptions False))
     = Inr [projectC, projectA, projectB]
   \<and> 2 \<le> length [projectC, projectA, projectB]
   \<and> \<not> DisplayShort (noContextOptions False)
   \<and> written (RunProjects (examplePackages (Inr [projectC, projectA, projectB]))
                (noContextOptions False)) =
       [(Stdout,
         projectsHeader ''oc''
         @ newline @ ''a - Alpha''
         @ newline @ ''b - Legacy''
         @ newline @ ''c''
         @ newline)]
   \<and> written (RunProjects (examplePackages (Inr [projectC, projectA, projectB]))
                (noContextOptions False)) \<noteq>
       [(Stdout,
         projectsHeader ''oc''
         @ newline @ ''    a - Alpha''
         @ newline @ ''    b - Legacy''
         @ newline @ ''    c''
         @ newline)]"
  by (simp add: RunProjects_def buildMsg_def sortSort_def Less_def loopBody_def displayNameOf_def
        mapIndex_def IsForbidden_def currentProjectOf_def currentProjectExistsOf_def
        accessRequests_def examplePackages_def noContextOptions_def projectA_def projectB_def
        projectC_def displayNameKey_def newline_def Let_def)

subsection \<open>C3: no projects\<close>

text \<open>
  C3, as the code has it: when the project set is empty, verbose mode writes exactly
  the fixed advisory sentence as one line, and short mode writes no text, but
  \<^verbatim>\<open>fmt.Println\<close> still writes the line terminator: the output is one empty line. In
  both modes nothing else is written and nil is returned.
\<close>

theorem C3_no_projects:
  assumes "GetProjects d (Client opts) (KubeClient opts) = Inr []"
  shows "written (RunProjects d opts) =
           [(Stdout, (if DisplayShort opts then [] else noProjectsMessage) @ newline)]
       \<and> returned (RunProjects d opts) = None"
  using RunProjects_listing [OF assms] by (simp add: buildMsg_def)

theorem C3_no_projects_witness:
  "GetProjects (examplePackages (Inr [])) (Client (noContextOptions False))
     (KubeClient (noContextOptions False)) = Inr []
   \<and> outputText (RunProjects (examplePackages (Inr [])) (noContextOptions False))
       = ''You are not a member of any projects. You can request a project to be created with the ''
         @ [CHR 0x27] @ ''new-project'' @ [CHR 0x27] @ '' command.'' @ [CHR 0x0A]
   \<and> outputText (RunProjects (examplePackages (Inr [])) (noContextOptions True)) = [CHR 0x0A]"
  using C3_no_projects [of "examplePackages (Inr [])" "noContextOptions False"]
    C3_no_projects [of "examplePackages (Inr [])" "noContextOptions True"]
  by (simp add: examplePackages_def noContextOptions_def outputText_def noProjectsMessage_def
        newline_def squote_def)

text \<open>
  C3 as stated says that in short mode nothing is emitted; a line break is.
\<close>

theorem C3_short_mode_counterexample:
  "GetProjects (examplePackages (Inr [])) (Client (noContextOptions True))
     (KubeClient (noContextOptions True)) = Inr []
   \<and> DisplayShort (noContextOptions True)
   \<and> written (RunProjects (examplePackages (Inr [])) (noContextOptions True))
       = [(Stdout, [CHR 0x0A])]
   \<and> outputText (RunProjects (examplePackages (Inr [])) (noContextOptions True)) \<noteq> []"
  by (simp add: RunProjects_def buildMsg_def outputText_def examplePackages_def
        noContextOptions_def newline_def Let_def)

subsection \<open>C4: the order of the lines\<close>

text \<open>
  C4: for two or more projects with unique names, the lines of the output are those of
  the projects in strictly ascending order of \<^verbatim>\<open>Name\<close> (the sorted sequence is a
  permutation of the input whose names strictly ascend, and the text is the lines of
  that sequence, one after the other), and a server that lists the same projects in
  another order gives the same run.
\<close>

theorem C4_sorted_lines:
  assumes "GetProjects d (Client opts) (KubeClient opts) = Inr projects"
    and "2 \<le> length projects"
    and "distinct (map Name projects)"
  shows "written (RunProjects d opts) =
           (Stdout,
            (if DisplayShort opts then [] else projectsHeader (CommandName opts))
            @ concat (map (\<lambda>(n, p). projectLine d opts (currentProjectOf opts)
                                       (currentProjectExistsOf d opts) n p)
                        (enumerate 1 (sortSort projects)))
            @ newline)
           # (if \<not> DisplayShort opts \<and> currentProjectExistsOf d opts
              then [(Out, footer d opts)] else [])
       \<and> mset (sortSort projects) = mset projects
       \<and> sorted_wrt (<) (map Name (sortSort projects))
       \<and> (\<forall>permuted. mset permuted = mset projects \<longrightarrow>
            RunProjects (d\<lparr>GetProjects := \<lambda>c k. Inr permuted\<rparr>) opts = RunProjects d opts)"
proof -
  have "RunProjects (d\<lparr>GetProjects := \<lambda>c k. Inr permuted\<rparr>) opts = RunProjects d opts"
    if "mset permuted = mset projects" for permuted
  proof (rule RunProjects_other_listing [OF assms(1,2)])
    show "length permuted = length projects"
      using that by (rule mset_eq_length)
    show "sortSort permuted = sortSort projects"
      using that assms(3) by (rule sortSort_permutation)
  qed
  then have perm: "\<forall>permuted. mset permuted = mset projects \<longrightarrow>
            RunProjects (d\<lparr>GetProjects := \<lambda>c k. Inr permuted\<rparr>) opts = RunProjects d opts"
    by blast
  have ne: "0 < length projects"
    using assms(2) by auto
  have first: "written (RunProjects d opts) =
           (Stdout,
            (if DisplayShort opts then [] else projectsHeader (CommandName opts))
            @ concat (map (\<lambda>(n, p). projectLine d opts (currentProjectOf opts)
                                       (currentProjectExistsOf d opts) n p)
                        (enumerate 1 (sortSort projects)))
            @ newline)
           # (if \<not> DisplayShort opts \<and> currentProjectExistsOf d opts
              then [(Out, footer d opts)] else [])"
    using RunProjects_listing(1) [OF assms(1)] ne
    by (simp add: buildMsg_many [OF assms(2)])
  show ?thesis
    using first perm strictly_sorted_sortSort [OF assms(3)] mset_sortSort [of projects]
    by blast
qed

theorem C4_sorted_lines_witness:
  "GetProjects (examplePackages (Inr [projectC, projectA, projectB]))
     (Client (exampleOptions ''work'' ''b'' True)) (KubeClient (exampleOptions ''work'' ''b'' True))
     = Inr [projectC, projectA, projectB]
   \<and> 2 \<le> length [projectC, projectA, projectB]
   \<and> distinct (map Name [projectC, projectA, projectB])
   \<and> mset [projectB, projectC, projectA] = mset [projectC, projectA, projectB]
   \<and> map Name (sortSort [projectC, projectA, projectB]) = [''a'', ''b'', ''c'']
   \<and> hd (written (RunProjects (examplePackages (Inr [projectC, projectA, projectB]))
                    (exampleOptions ''work'' ''b'' True)))
       = (Stdout, ''a'' @ newline @ ''b'' @ newline @ ''c'' @ newline)
   \<and> RunProjects (examplePackages (Inr [projectB, projectC, projectA]))
        (exampleOptions ''work'' ''b'' True)
       = RunProjects (examplePackages (Inr [projectC, projectA, projectB]))
           (exampleOptions ''work'' ''b'' True)"
proof -
  let ?d = "examplePackages (Inr [projectC, projectA, projectB])"
  let ?opts = "exampleOptions ''work'' ''b'' True"
  have g: "GetProjects ?d (Client ?opts) (KubeClient ?opts) = Inr [projectC, projectA, projectB]"
    by (simp add: examplePackages_def)
  have len: "2 \<le> length [projectC, projectA, projectB]"
    by simp
  have n: "Name projectA = ''a''" "Name projectB = ''b''" "Name projectC = ''c''"
    by (simp_all add: projectA_def projectB_def projectC_def)
  have di: "distinct (map Name [projectC, projectA, projectB])"
    by (simp add: n)
  have m: "mset [projectB, projectC, projectA] = mset [projectC, projectA, projectB]"
    by simp
  have s: "sortSort [projectC, projectA, projectB] = [projectA, projectB, projectC]"
    by (simp add: sortSort_def Less_def n)
  have names: "map Name (sortSort [projectC, projectA, projectB]) = [''a'', ''b'', ''c'']"
    by (simp add: s n)
  have u: "?d\<lparr>GetProjects := \<lambda>c k. Inr [projectB, projectC, projectA]\<rparr>
           = examplePackages (Inr [projectB, projectC, projectA])"
    by (simp add: examplePackages_def)
  have l: "projectLine ?d ?opts cp ex k p = (if k = 1 then [] else newline) @ Name p"
    for cp ex k p
    by (simp add: projectLine_def markerOf_def exampleOptions_def Let_def)
  have short: "DisplayShort ?opts"
    by (simp add: exampleOptions_def)
  note t = C4_sorted_lines [OF g len di]
  from t have "written (RunProjects ?d ?opts) =
           (Stdout,
            (if DisplayShort ?opts then [] else projectsHeader (CommandName ?opts))
            @ concat (map (\<lambda>(k, p). projectLine ?d ?opts (currentProjectOf ?opts)
                                       (currentProjectExistsOf ?d ?opts) k p)
                        (enumerate 1 (sortSort [projectC, projectA, projectB])))
            @ newline)
           # (if \<not> DisplayShort ?opts \<and> currentProjectExistsOf ?d ?opts
              then [(Out, footer ?d ?opts)] else [])"
    by (rule conjunct1)
  then have first: "hd (written (RunProjects ?d ?opts))
                    = (Stdout, ''a'' @ newline @ ''b'' @ newline @ ''c'' @ newline)"
    by (simp add: s l n short)
  from t m have "RunProjects (?d\<lparr>GetProjects := \<lambda>c k. Inr [projectB, projectC, projectA]\<rparr>) ?opts
                 = RunProjects ?d ?opts"
    by blast
  then have p: "RunProjects (examplePackages (Inr [projectB, projectC, projectA])) ?opts
                = RunProjects ?d ?opts"
    by (simp only: u)
  show ?thesis
    by (intro conjI g len di m names first p)
qed

subsection \<open>C5: the display name\<close>

text \<open>
  C5, as the code has it, for the lines of two or more projects: the value of the
  well-known annotation is the display name when it is present and not empty; when it
  is absent or empty the display name is the value of the legacy annotation
  \<^verbatim>\<open>displayName\<close> (empty if that is absent too). When the display name is empty, or
  equals \<^verbatim>\<open>Name\<close>, or short mode is active, the line is the marker and the bare name;
  otherwise the name is followed by \<^verbatim>\<open>" - "\<close> and the display name.
\<close>

theorem C5_display_name:
  "(\<forall>v. Annotations project (OpenShiftDisplayName d) = Some v \<and> v \<noteq> []
         \<longrightarrow> displayNameOf d project = v)
   \<and> (Annotations project (OpenShiftDisplayName d) = None
        \<or> Annotations project (OpenShiftDisplayName d) = Some []
       \<longrightarrow> displayNameOf d project
            = (case Annotations project ''displayName'' of None \<Rightarrow> [] | Some v \<Rightarrow> v))
   \<and> (displayNameOf d project = [] \<or> displayNameOf d project = Name project
        \<or> DisplayShort opts
       \<longrightarrow> msg (loopBody d opts cp ex st project)
            = msg st @ (if DisplayShort opts \<and> count st = 0 then [] else newline)
              @ asterisk (loopBody d opts cp ex st project) @ Name project)
   \<and> (displayNameOf d project \<noteq> [] \<and> displayNameOf d project \<noteq> Name project
        \<and> \<not> DisplayShort opts
       \<longrightarrow> msg (loopBody d opts cp ex st project)
            = msg st @ newline @ asterisk (loopBody d opts cp ex st project) @ Name project
              @ '' - '' @ displayNameOf d project)"
proof (intro conjI allI impI)
  fix v
  assume "Annotations project (OpenShiftDisplayName d) = Some v \<and> v \<noteq> []"
  then show "displayNameOf d project = v"
    by (simp add: displayNameOf_def mapIndex_def)
next
  assume "Annotations project (OpenShiftDisplayName d) = None
          \<or> Annotations project (OpenShiftDisplayName d) = Some []"
  then show "displayNameOf d project
             = (case Annotations project ''displayName'' of None \<Rightarrow> [] | Some v \<Rightarrow> v)"
    by (auto simp: displayNameOf_def mapIndex_def)
next
  assume "displayNameOf d project = [] \<or> displayNameOf d project = Name project
          \<or> DisplayShort opts"
  then show "msg (loopBody d opts cp ex st project)
             = msg st @ (if DisplayShort opts \<and> count st = 0 then [] else newline)
               @ asterisk (loopBody d opts cp ex st project) @ Name project"
    by (auto simp: loopBody_def Let_def)
next
  assume "displayNameOf d project \<noteq> [] \<and> displayNameOf d project \<noteq> Name project
          \<and> \<not> DisplayShort opts"
  then show "msg (loopBody d opts cp ex st project)
             = msg st @ newline @ asterisk (loopBody d opts cp ex st project) @ Name project
               @ '' - '' @ displayNameOf d project"
    by (simp add: loopBody_def Let_def)
qed

theorem C5_display_name_witness:
  "Annotations projectA (OpenShiftDisplayName (examplePackages (Inr [projectC, projectA])))
     = Some ''Alpha''
   \<and> ''Alpha'' \<noteq> []
   \<and> displayNameOf (examplePackages (Inr [projectC, projectA])) projectA = ''Alpha''
   \<and> Annotations projectB (OpenShiftDisplayName (examplePackages (Inr [projectC, projectA])))
       = Some []
   \<and> displayNameOf (examplePackages (Inr [projectC, projectA])) projectB = ''Legacy''
   \<and> displayNameOf (examplePackages (Inr [projectC, projectA])) projectC = []
   \<and> msg (loopBody (examplePackages (Inr [projectC, projectA])) (noContextOptions False)
            [] False \<lparr>msg = [], asterisk = [], count = 0\<rparr> projectC)
       = newline @ ''c''
   \<and> ''Alpha'' \<noteq> Name projectA
   \<and> \<not> DisplayShort (noContextOptions False)
   \<and> msg (loopBody (examplePackages (Inr [projectC, projectA])) (noContextOptions False)
            [] False \<lparr>msg = [], asterisk = [], count = 0\<rparr> projectA)
       = newline @ ''a - Alpha''"
proof -
  let ?d = "examplePackages (Inr [projectC, projectA])"
  let ?opts = "noContextOptions False"
  let ?st = "\<lparr>msg = [], asterisk = [], count = 0\<rparr>"
  have a: "Annotations projectA (OpenShiftDisplayName ?d) = Some ''Alpha''"
    by (simp add: examplePackages_def projectA_def)
  have b: "Annotations projectB (OpenShiftDisplayName ?d) = Some []"
    by (simp add: examplePackages_def projectB_def displayNameKey_def)
  have b': "Annotations projectB ''displayName'' = Some ''Legacy''"
    by (simp add: projectB_def displayNameKey_def)
  have c: "Annotations projectC (OpenShiftDisplayName ?d) = None"
    "Annotations projectC ''displayName'' = None"
    by (simp_all add: projectC_def)
  have verbose: "\<not> DisplayShort ?opts"
    by (simp add: noContextOptions_def)
  have na: "''Alpha'' \<noteq> Name projectA" "''Alpha'' \<noteq> []"
    by (simp_all add: projectA_def)
  have da: "displayNameOf ?d projectA = ''Alpha''"
    using C5_display_name [of projectA ?d] a by simp
  have db: "displayNameOf ?d projectB = ''Legacy''"
    using C5_display_name [of projectB ?d] b b' by simp
  have dc: "displayNameOf ?d projectC = []"
    using C5_display_name [of projectC ?d] c by simp
  have n: "Name projectA = ''a''" "Name projectC = ''c''"
    by (simp_all add: projectA_def projectC_def)
  have st: "asterisk (loopBody ?d ?opts [] False ?st p) = []" for p
    by (simp add: loopBody_def Let_def)
  have lc: "msg (loopBody ?d ?opts [] False ?st projectC) = newline @ ''c''"
    using C5_display_name [of projectC ?d ?opts "[]" False ?st] dc verbose
    by (simp add: st n)
  have la: "msg (loopBody ?d ?opts [] False ?st projectA) = newline @ ''a - Alpha''"
    using C5_display_name [of projectA ?d ?opts "[]" False ?st] da na verbose
    by (simp add: st n)
  show ?thesis
    by (intro conjI a na da b db dc lc verbose la)
qed

text \<open>
  C5 as stated lets the well-known annotation win whenever it is present. Project
  \<open>b\<close> has it, with the empty value, and has the legacy annotation too: the code takes
  the legacy value and appends it to the name.
\<close>

theorem C5_empty_annotation_counterexample:
  "Annotations projectB (OpenShiftDisplayName (examplePackages (Inr [projectC, projectB])))
     = Some []
   \<and> Annotations projectB ''displayName'' = Some ''Legacy''
   \<and> displayNameOf (examplePackages (Inr [projectC, projectB])) projectB = ''Legacy''
   \<and> msg (loopBody (examplePackages (Inr [projectC, projectB])) (noContextOptions False) [] False
            \<lparr>msg = [], asterisk = [], count = 0\<rparr> projectB)
       = newline @ ''b - Legacy''
   \<and> msg (loopBody (examplePackages (Inr [projectC, projectB])) (noContextOptions False) [] False
            \<lparr>msg = [], asterisk = [], count = 0\<rparr> projectB)
       \<noteq> newline @ ''b''"
  by (simp add: loopBody_def displayNameOf_def mapIndex_def examplePackages_def
        noContextOptions_def projectB_def displayNameKey_def newline_def Let_def)

subsection \<open>C6: one project\<close>

text \<open>
  C6: when the only project is named \<open>dev\<close> and has no distinct display name, the
  message of verbose mode is exactly the sentence
  \<^verbatim>\<open>You have one project on this server: "dev".\<close>, the display form of the project in
  double quotes, and the message of short mode is the bare name. The message is
  printed as one line. Short mode writes nothing else; verbose mode writes after it
  only the footer of the current project, when that was confirmed accessible.
\<close>

theorem C6_one_project:
  assumes "GetProjects d (Client opts) (KubeClient opts) = Inr [project]"
    and "Name project = ''dev''"
    and "specDisplayName d project = [] \<or> specDisplayName d project = Name project"
  shows "buildMsg d opts (currentProjectOf opts) (currentProjectExistsOf d opts) [project] =
           (if DisplayShort opts then ''dev''
            else ''You have one project on this server: '' @ [CHR 0x22] @ ''dev'' @ [CHR 0x22]
                 @ ''.'')
       \<and> written (RunProjects d opts) =
           (Stdout,
            (if DisplayShort opts then ''dev''
             else ''You have one project on this server: '' @ [CHR 0x22] @ ''dev'' @ [CHR 0x22]
                  @ ''.'')
            @ newline)
           # (if \<not> DisplayShort opts \<and> currentProjectExistsOf d opts
              then [(Out, footer d opts)] else [])"
proof -
  have "DisplayNameAndNameForProject d project = ''dev''"
    using assms(2,3) by (auto simp: DisplayNameAndNameForProject_def Let_def)
  then have "buildMsg d opts cp ex [project] =
        (if DisplayShort opts then ''dev''
         else ''You have one project on this server: '' @ [CHR 0x22] @ ''dev'' @ [CHR 0x22] @ ''.'')"
    for cp ex
    using assms(2)
    by (simp add: buildMsg_def oneProjectMessage_def goQuote_def isPlainASCII_def quoteByte_def
          dquote_def)
  then show ?thesis
    using RunProjects_listing [OF assms(1)] by simp
qed

theorem C6_one_project_witness:
  "GetProjects (examplePackages (Inr [projectDev])) (Client (noContextOptions False))
     (KubeClient (noContextOptions False)) = Inr [projectDev]
   \<and> Name projectDev = ''dev''
   \<and> specDisplayName (examplePackages (Inr [projectDev])) projectDev = []
   \<and> outputText (RunProjects (examplePackages (Inr [projectDev])) (noContextOptions False))
       = ''You have one project on this server: '' @ [CHR 0x22] @ ''dev'' @ [CHR 0x22] @ ''.''
         @ [CHR 0x0A]
   \<and> outputText (RunProjects (examplePackages (Inr [projectDev])) (noContextOptions True))
       = ''dev'' @ [CHR 0x0A]"
  using C6_one_project [of "examplePackages (Inr [projectDev])" "noContextOptions False" projectDev]
    C6_one_project [of "examplePackages (Inr [projectDev])" "noContextOptions True" projectDev]
  by (simp add: examplePackages_def noContextOptions_def projectDev_def specDisplayName_def
        outputText_def newline_def currentProjectExistsOf_def currentProjectOf_def)

subsection \<open>C7: enumeration fails\<close>

text \<open>
  C7: when the enumeration of the projects fails, \<^verbatim>\<open>RunProjects\<close> writes nothing and
  returns the error of the enumeration as it is.
\<close>

theorem C7_enumeration_error:
  assumes "GetProjects d (Client opts) (KubeClient opts) = Inl err"
  shows "written (RunProjects d opts) = [] \<and> returned (RunProjects d opts) = Some err"
  using RunProjects_failed [OF assms] by simp

theorem C7_enumeration_error_witness:
  "GetProjects (examplePackages (Inl (ErrorString ''timeout'')))
     (Client (exampleOptions ''work'' ''b'' False)) (KubeClient (exampleOptions ''work'' ''b'' False))
     = Inl (ErrorString ''timeout'')
   \<and> written (RunProjects (examplePackages (Inl (ErrorString ''timeout'')))
                (exampleOptions ''work'' ''b'' False)) = []
   \<and> returned (RunProjects (examplePackages (Inl (ErrorString ''timeout'')))
                 (exampleOptions ''work'' ''b'' False)) = Some (ErrorString ''timeout'')"
  using C7_enumeration_error [of "examplePackages (Inl (ErrorString ''timeout''))"
          "exampleOptions ''work'' ''b'' False" "ErrorString ''timeout''"]
  by (simp add: examplePackages_def)

subsection \<open>C8: positional arguments\<close>

text \<open>
  C8, as the code has it: when one or more positional arguments are given, the command
  ends in \<^verbatim>\<open>CheckErr\<close> with an error before any request is made or anything is written,
  and \<^verbatim>\<open>RunProjects\<close>, which always makes a request, is not reached. \<^verbatim>\<open>Validate\<close>
  returns an error for such arguments, and that error is the one reported when
  \<^verbatim>\<open>Complete\<close> succeeded. \<^verbatim>\<open>Complete\<close> runs first (line 80): when it fails, the error
  reported is the usage error made from its message, and \<^verbatim>\<open>Validate\<close> is not called.
\<close>

theorem C8_arguments_rejected:
  assumes "args \<noteq> []"
  shows "Validate args = Some (ErrorString ''no arguments should be passed'')
       \<and> Run d f fullName short args =
           fatal (case Complete d f fullName short of
                    Inl err \<Rightarrow> UsageError (ErrorMessage err)
                  | Inr opts \<Rightarrow> ErrorString ''no arguments should be passed'')
       \<and> requests (Run d f fullName short args) = []
       \<and> written (Run d f fullName short args) = []
       \<and> returned (Run d f fullName short args) \<noteq> None
       \<and> (\<forall>opts. Run d f fullName short args \<noteq> RunProjects d opts)"
proof -
  have v: "Validate args = Some (ErrorString ''no arguments should be passed'')"
    using assms by (simp add: Validate_def)
  have r: "Run d f fullName short args =
           fatal (case Complete d f fullName short of
                    Inl err \<Rightarrow> UsageError (ErrorMessage err)
                  | Inr opts \<Rightarrow> ErrorString ''no arguments should be passed'')"
    by (simp add: Run_def v split: sum.splits)
  have q: "requests (Run d f fullName short args) = []"
    by (simp add: r fatal_def)
  have "Run d f fullName short args \<noteq> RunProjects d opts" for opts
    using q RunProjects_requests [of d opts] by auto
  then show ?thesis
    using v r by (simp add: fatal_def)
qed

theorem C8_arguments_rejected_witness:
  "[''extra''] \<noteq> []
   \<and> Validate [''extra''] = Some (ErrorString ''no arguments should be passed'')
   \<and> Run (examplePackages (Inr [projectDev])) exampleFactory ''oc'' False [''extra'']
       = \<lparr>written = [], requests = [],
          returned = Some (ErrorString ''no arguments should be passed'')\<rparr>
   \<and> Run (examplePackages (Inr [projectDev])) failingFactory ''oc'' False [''extra'']
       = \<lparr>written = [], requests = [], returned = Some (UsageError ''no client'')\<rparr>"
  using C8_arguments_rejected [of "[''extra'']" "examplePackages (Inr [projectDev])"
          exampleFactory "''oc''" False]
    C8_arguments_rejected [of "[''extra'']" "examplePackages (Inr [projectDev])"
          failingFactory "''oc''" False]
  by (simp add: Complete_def exampleFactory_def failingFactory_def examplePackages_def
        fatal_def)

text \<open>
  C8 as stated has a validation error reported for every invocation with arguments.
  With a factory that cannot build the Kubernetes client, \<^verbatim>\<open>Complete\<close> fails and the
  error reported is its usage error, not the error of \<^verbatim>\<open>Validate\<close>.
\<close>

theorem C8_complete_fails_first_counterexample:
  "[''extra''] \<noteq> []
   \<and> Complete (examplePackages (Inr [projectDev])) failingFactory ''oc'' False
       = Inl (ErrorString ''no client'')
   \<and> returned (Run (examplePackages (Inr [projectDev])) failingFactory ''oc'' False [''extra''])
       = Some (UsageError ''no client'')
   \<and> returned (Run (examplePackages (Inr [projectDev])) failingFactory ''oc'' False [''extra''])
       \<noteq> Validate [''extra'']"
  by (simp add: Run_def Complete_def Validate_def failingFactory_def fatal_def)

subsection \<open>C9: the footer\<close>

text \<open>
  C9: in verbose mode with a non-empty project set, when the current project was
  confirmed accessible, the footer is written after the listing and nil is returned.
  The footer is an empty line and then a line that states the current project and the
  host of the server, each as \<^verbatim>\<open>%q\<close> writes it. When the name of the current context
  equals the nickname computed from its namespace, cluster and user it is the short
  form, \<^verbatim>\<open>Using project "P" on server "H".\<close>; otherwise it is the long form, which
  names the context as well, \<^verbatim>\<open>Using project "P" from context named "C" on server "H".\<close>
  The two forms are never the same text.
\<close>

theorem C9_footer:
  assumes "Contexts (Config opts) (CurrentContext (Config opts)) = Some c"
    and "Namespace c \<noteq> []"
    and "ConfirmProjectAccess d (Namespace c) (Client opts) (KubeClient opts) = None"
    and "GetProjects d (Client opts) (KubeClient opts) = Inr projects"
    and "projects \<noteq> []"
    and "\<not> DisplayShort opts"
  shows "written (RunProjects d opts) =
           [(Stdout, buildMsg d opts (Namespace c) True projects @ newline),
            (Out,
             if CurrentContext (Config opts)
                = GetContextNickname d (Namespace c) (Cluster c) (AuthInfo c)
             then [CHR 0x0A] @ ''Using project '' @ goQuote d (Namespace c)
                  @ '' on server '' @ goQuote d (Host (ClientConfig opts))
                  @ ''.'' @ [CHR 0x0A]
             else [CHR 0x0A] @ ''Using project '' @ goQuote d (Namespace c)
                  @ '' from context named '' @ goQuote d (CurrentContext (Config opts))
                  @ '' on server '' @ goQuote d (Host (ClientConfig opts))
                  @ ''.'' @ [CHR 0x0A])]
       \<and> [CHR 0x0A] @ ''Using project '' @ goQuote d (Namespace c)
           @ '' on server '' @ goQuote d (Host (ClientConfig opts)) @ ''.'' @ [CHR 0x0A]
           \<noteq> [CHR 0x0A] @ ''Using project '' @ goQuote d (Namespace c)
             @ '' from context named '' @ goQuote d (CurrentContext (Config opts))
             @ '' on server '' @ goQuote d (Host (ClientConfig opts)) @ ''.'' @ [CHR 0x0A]
       \<and> (isPlainASCII (Namespace c) \<longrightarrow>
            goQuote d (Namespace c)
            = [CHR 0x22] @ concat (map quoteByte (Namespace c)) @ [CHR 0x22])
       \<and> (isPlainASCII (Host (ClientConfig opts)) \<longrightarrow>
            goQuote d (Host (ClientConfig opts))
            = [CHR 0x22] @ concat (map quoteByte (Host (ClientConfig opts))) @ [CHR 0x22])
       \<and> (isPlainASCII (CurrentContext (Config opts)) \<longrightarrow>
            goQuote d (CurrentContext (Config opts))
            = [CHR 0x22] @ concat (map quoteByte (CurrentContext (Config opts))) @ [CHR 0x22])
       \<and> returned (RunProjects d opts) = None"
proof -
  have cp: "currentProjectOf opts = Namespace c"
    using assms(1) by (simp add: currentProjectOf_def)
  have ex: "currentProjectExistsOf d opts"
    using assms(2,3) by (simp add: currentProjectExistsOf_def cp)
  have nick: "defaultContextNameOf d opts
              = GetContextNickname d (Namespace c) (Cluster c) (AuthInfo c)"
    using assms(1) by (simp add: defaultContextNameOf_def)
  have short: "shortFooter d p h =
                 [CHR 0x0A] @ ''Using project '' @ goQuote d p @ '' on server '' @ goQuote d h
                 @ ''.'' @ [CHR 0x0A]" for p h
    by (simp add: shortFooter_def newline_def)
  have long: "longFooter d p x h =
                [CHR 0x0A] @ ''Using project '' @ goQuote d p @ '' from context named ''
                @ goQuote d x @ '' on server '' @ goQuote d h @ ''.'' @ [CHR 0x0A]" for p x h
    by (simp add: longFooter_def newline_def)
  have w: "written (RunProjects d opts) =
           [(Stdout, buildMsg d opts (Namespace c) True projects @ newline),
            (Out,
             if CurrentContext (Config opts)
                = GetContextNickname d (Namespace c) (Cluster c) (AuthInfo c)
             then shortFooter d (Namespace c) (Host (ClientConfig opts))
             else longFooter d (Namespace c) (CurrentContext (Config opts))
                    (Host (ClientConfig opts)))]"
    using RunProjects_listing(1) [OF assms(4)] assms(5,6) cp ex nick
    by (simp add: footer_def)
  have differ: "shortFooter d (Namespace c) (Host (ClientConfig opts))
                \<noteq> longFooter d (Namespace c) (CurrentContext (Config opts))
                    (Host (ClientConfig opts))"
    by (rule footers_differ)
  have q: "isPlainASCII s \<longrightarrow>
             goQuote d s = [CHR 0x22] @ concat (map quoteByte s) @ [CHR 0x22]" for s
    by (simp add: goQuote_ascii dquote_def)
  have r: "returned (RunProjects d opts) = None"
    by (rule RunProjects_listing(3) [OF assms(4)])
  show ?thesis
    using w differ r q [of "Namespace c"] q [of "Host (ClientConfig opts)"]
      q [of "CurrentContext (Config opts)"]
    unfolding short long by blast
qed

theorem C9_footer_witness:
  "Contexts (Config (exampleOptions ''work'' ''b'' False))
     (CurrentContext (Config (exampleOptions ''work'' ''b'' False)))
     = Some \<lparr>Namespace = ''b'', Cluster = ''c1'', AuthInfo = ''u1''\<rparr>
   \<and> ''b'' \<noteq> []
   \<and> ConfirmProjectAccess (examplePackages (Inr [projectC, projectA])) ''b'' () () = None
   \<and> GetProjects (examplePackages (Inr [projectC, projectA])) () () = Inr [projectC, projectA]
   \<and> [projectC, projectA] \<noteq> []
   \<and> \<not> DisplayShort (exampleOptions ''work'' ''b'' False)
   \<and> isPlainASCII ''b'' \<and> isPlainASCII ''work'' \<and> isPlainASCII ''b/c1/u1''
   \<and> isPlainASCII ''https://c1:8443''
   \<and> written (RunProjects (examplePackages (Inr [projectC, projectA]))
                (exampleOptions ''work'' ''b'' False)) ! 1
       = (Out,
          [CHR 0x0A] @ ''Using project '' @ [CHR 0x22] @ ''b'' @ [CHR 0x22]
          @ '' from context named '' @ [CHR 0x22] @ ''work'' @ [CHR 0x22]
          @ '' on server '' @ [CHR 0x22] @ ''https://c1:8443'' @ [CHR 0x22]
          @ ''.'' @ [CHR 0x0A])
   \<and> written (RunProjects (examplePackages (Inr [projectC, projectA]))
                (exampleOptions ''b/c1/u1'' ''b'' False)) ! 1
       = (Out,
          [CHR 0x0A] @ ''Using project '' @ [CHR 0x22] @ ''b'' @ [CHR 0x22]
          @ '' on server '' @ [CHR 0x22] @ ''https://c1:8443'' @ [CHR 0x22]
          @ ''.'' @ [CHR 0x0A])"
  using C9_footer [of "exampleOptions ''work'' ''b'' False"
          "\<lparr>Namespace = ''b'', Cluster = ''c1'', AuthInfo = ''u1''\<rparr>"
          "examplePackages (Inr [projectC, projectA])" "[projectC, projectA]"]
    C9_footer [of "exampleOptions ''b/c1/u1'' ''b'' False"
          "\<lparr>Namespace = ''b'', Cluster = ''c1'', AuthInfo = ''u1''\<rparr>"
          "examplePackages (Inr [projectC, projectA])" "[projectC, projectA]"]
  by (simp add: exampleOptions_def examplePackages_def isPlainASCII_def quoteByte_def dquote_def)

subsection \<open>C10: no current project\<close>

text \<open>
  C10: when there is no current context, or its namespace is empty, and the
  enumeration returns a non-empty set, verbose mode makes no access check (its only
  request is the enumeration), writes the listing and nothing else, and returns nil.
\<close>

theorem C10_no_current_project:
  assumes "Contexts (Config opts) (CurrentContext (Config opts)) = None
           \<or> (\<exists>c. Contexts (Config opts) (CurrentContext (Config opts)) = Some c
                    \<and> Namespace c = [])"
    and "GetProjects d (Client opts) (KubeClient opts) = Inr projects"
    and "projects \<noteq> []"
    and "\<not> DisplayShort opts"
  shows "requests (RunProjects d opts) = [GetProjectsCall]
       \<and> written (RunProjects d opts) =
           [(Stdout, buildMsg d opts [] False projects @ newline)]
       \<and> returned (RunProjects d opts) = None"
proof -
  have cp: "currentProjectOf opts = []"
    using assms(1) by (auto simp: currentProjectOf_def)
  then have ex: "\<not> currentProjectExistsOf d opts"
    by (simp add: currentProjectExistsOf_def)
  show ?thesis
    using RunProjects_listing [OF assms(2)] cp ex
    by (simp add: accessRequests_def)
qed

theorem C10_no_current_project_witness:
  "Contexts (Config (noContextOptions False)) (CurrentContext (Config (noContextOptions False)))
     = None
   \<and> GetProjects (examplePackages (Inr [projectC, projectA])) (Client (noContextOptions False))
       (KubeClient (noContextOptions False)) = Inr [projectC, projectA]
   \<and> [projectC, projectA] \<noteq> []
   \<and> \<not> DisplayShort (noContextOptions False)
   \<and> RunProjects (examplePackages (Inr [projectC, projectA])) (noContextOptions False) =
       \<lparr>written =
          [(Stdout, projectsHeader ''oc'' @ newline @ ''a - Alpha'' @ newline @ ''c'' @ newline)],
        requests = [GetProjectsCall], returned = None\<rparr>"
proof -
  have m: "buildMsg (examplePackages (Inr [projectC, projectA])) (noContextOptions False) [] False
             [projectC, projectA] =
           projectsHeader ''oc'' @ newline @ ''a - Alpha'' @ newline @ ''c''"
    by (simp add: buildMsg_def sortSort_def Less_def loopBody_def displayNameOf_def mapIndex_def
          examplePackages_def noContextOptions_def projectA_def projectC_def displayNameKey_def
          Let_def)
  show ?thesis
    using C10_no_current_project [of "noContextOptions False"
            "examplePackages (Inr [projectC, projectA])" "[projectC, projectA]"] m
    by (simp add: noContextOptions_def examplePackages_def Outcome.equality)
qed

end
